theory Spec2Isabelle
  imports Complex_Main "HOL-Library.Sublist"
begin

section \<open>JavaScript numbers\<close>

text \<open>
  A JavaScript \<open>number\<close> is modelled as a finite real or one of the three special values
  of IEEE 754. Finite arithmetic is exact: rounding, overflow to infinity and the sign of
  zero are not modelled (a zero divisor behaves as \<open>+0\<close>). The special values follow
  ECMAScript: every operation with a \<open>NaN\<close> operand gives \<open>NaN\<close>, every comparison with
  \<open>NaN\<close> is false, \<open>Infinity - Infinity\<close>, \<open>0 * Infinity\<close>, \<open>0 / 0\<close> and
  \<open>Infinity / Infinity\<close> are \<open>NaN\<close>.
\<close>

datatype jsnum = Fin real | PInf | NInf | NaN

definition num :: "nat \<Rightarrow> jsnum" where
  "num n = Fin (real n)"

fun js_neg :: "jsnum \<Rightarrow> jsnum" where
  "js_neg (Fin a) = Fin (- a)"
| "js_neg PInf = NInf"
| "js_neg NInf = PInf"
| "js_neg NaN = NaN"

fun js_add :: "jsnum \<Rightarrow> jsnum \<Rightarrow> jsnum" where
  "js_add NaN _ = NaN"
| "js_add _ NaN = NaN"
| "js_add (Fin a) (Fin b) = Fin (a + b)"
| "js_add PInf NInf = NaN"
| "js_add NInf PInf = NaN"
| "js_add PInf _ = PInf"
| "js_add NInf _ = NInf"
| "js_add (Fin a) PInf = PInf"
| "js_add (Fin a) NInf = NInf"

definition js_sub :: "jsnum \<Rightarrow> jsnum \<Rightarrow> jsnum" where
  "js_sub a b = js_add a (js_neg b)"

text \<open>The sign of a number that is not \<open>NaN\<close>; zero counts as positive zero.\<close>

fun js_nonneg :: "jsnum \<Rightarrow> bool" where
  "js_nonneg (Fin a) = (0 \<le> a)"
| "js_nonneg PInf = True"
| "js_nonneg NInf = False"
| "js_nonneg NaN = False"

definition js_signed_inf :: "bool \<Rightarrow> jsnum" where
  "js_signed_inf pos = (if pos then PInf else NInf)"

fun js_mul :: "jsnum \<Rightarrow> jsnum \<Rightarrow> jsnum" where
  "js_mul NaN _ = NaN"
| "js_mul _ NaN = NaN"
| "js_mul (Fin a) (Fin b) = Fin (a * b)"
| "js_mul (Fin a) b = (if a = 0 then NaN else js_signed_inf ((0 < a) = js_nonneg b))"
| "js_mul a (Fin b) = (if b = 0 then NaN else js_signed_inf (js_nonneg a = (0 < b)))"
| "js_mul a b = js_signed_inf (js_nonneg a = js_nonneg b)"

fun js_div :: "jsnum \<Rightarrow> jsnum \<Rightarrow> jsnum" where
  "js_div NaN _ = NaN"
| "js_div _ NaN = NaN"
| "js_div (Fin a) (Fin b) =
     (if b = 0 then (if a = 0 then NaN else js_signed_inf (0 < a)) else Fin (a / b))"
| "js_div (Fin a) _ = Fin 0"
| "js_div a (Fin b) = js_signed_inf (js_nonneg a = (0 \<le> b))"
| "js_div _ _ = NaN"

fun js_lt :: "jsnum \<Rightarrow> jsnum \<Rightarrow> bool" where
  "js_lt NaN _ = False"
| "js_lt _ NaN = False"
| "js_lt (Fin a) (Fin b) = (a < b)"
| "js_lt NInf b = (b \<noteq> NInf)"
| "js_lt a PInf = (a \<noteq> PInf)"
| "js_lt _ _ = False"

definition js_gt :: "jsnum \<Rightarrow> jsnum \<Rightarrow> bool" where
  "js_gt a b = js_lt b a"

definition js_le :: "jsnum \<Rightarrow> jsnum \<Rightarrow> bool" where
  "js_le a b = (a \<noteq> NaN \<and> b \<noteq> NaN \<and> \<not> js_lt b a)"

definition js_ge :: "jsnum \<Rightarrow> jsnum \<Rightarrow> bool" where
  "js_ge a b = js_le b a"

definition isNaN :: "jsnum \<Rightarrow> bool" where
  "isNaN a = (a = NaN)"

fun Math_abs :: "jsnum \<Rightarrow> jsnum" where
  "Math_abs (Fin a) = Fin \<bar>a\<bar>"
| "Math_abs PInf = PInf"
| "Math_abs NInf = PInf"
| "Math_abs NaN = NaN"

definition Math_max :: "jsnum \<Rightarrow> jsnum \<Rightarrow> jsnum" where
  "Math_max a b = (if a = NaN \<or> b = NaN then NaN else if js_lt a b then b else a)"

definition Math_min :: "jsnum \<Rightarrow> jsnum \<Rightarrow> jsnum" where
  "Math_min a b = (if a = NaN \<or> b = NaN then NaN else if js_lt b a then b else a)"

fun Math_sqrt :: "jsnum \<Rightarrow> jsnum" where
  "Math_sqrt (Fin a) = (if a < 0 then NaN else Fin (sqrt a))"
| "Math_sqrt PInf = PInf"
| "Math_sqrt NInf = NaN"
| "Math_sqrt NaN = NaN"

fun Math_log2 :: "jsnum \<Rightarrow> jsnum" where
  "Math_log2 (Fin a) = (if a < 0 then NaN else if a = 0 then NInf else Fin (log 2 a))"
| "Math_log2 PInf = PInf"
| "Math_log2 NInf = NaN"
| "Math_log2 NaN = NaN"

text \<open>\<open>Math.pow\<close> with a positive integer exponent, the only way the extractor calls it on
  a value.\<close>

fun Math_pow :: "jsnum \<Rightarrow> nat \<Rightarrow> jsnum" where
  "Math_pow (Fin a) n = Fin (a ^ n)"
| "Math_pow PInf n = (if n = 0 then Fin 1 else PInf)"
| "Math_pow NInf n = (if n = 0 then Fin 1 else if odd n then NInf else PInf)"
| "Math_pow NaN n = (if n = 0 then Fin 1 else NaN)"

text \<open>\<open>xs.reduce((sum, val) => sum + val, 0)\<close>.\<close>

definition reduce_sum :: "jsnum list \<Rightarrow> jsnum" where
  "reduce_sum xs = foldl (\<lambda>sum val. js_add sum val) (Fin 0) xs"

section \<open>\<open>parseFloat\<close> and \<open>String.prototype.includes\<close>\<close>

text \<open>
  \<open>parseFloat\<close> after ECMAScript: leading white space is skipped, the longest prefix that
  is a \<open>StrDecimalLiteral\<close> is read, and the result is \<open>NaN\<close> when there is none. The
  value of a decimal literal is its exact decimal value. Strings are byte strings; white
  space is the ASCII white space.
\<close>

definition is_digit :: "char \<Rightarrow> bool" where
  "is_digit c = (c \<in> set ''0123456789'')"

definition is_white :: "char \<Rightarrow> bool" where
  "is_white c = (c \<in> {CHR '' '', CHR 0x09, CHR 0x0A, CHR 0x0B, CHR 0x0C, CHR 0x0D})"

definition digit_val :: "char \<Rightarrow> nat" where
  "digit_val c = of_char c - 48"

definition digits_val :: "string \<Rightarrow> nat" where
  "digits_val ds = foldl (\<lambda>acc c. 10 * acc + digit_val c) 0 ds"

definition scale10 :: "real \<Rightarrow> int \<Rightarrow> real" where
  "scale10 m e = (if 0 \<le> e then m * 10 ^ nat e else m / 10 ^ nat (- e))"

text \<open>The exponent part \<open>e\<close>/\<open>E\<close>, an optional sign and at least one digit; 0 when the rest
  of the text has no exponent part.\<close>

definition exponent_part :: "string \<Rightarrow> int" where
  "exponent_part s =
     (case s of
        [] \<Rightarrow> 0
      | c # t \<Rightarrow>
          if c = CHR ''e'' \<or> c = CHR ''E'' then
            (case t of
               [] \<Rightarrow> 0
             | d # u \<Rightarrow>
                 if d = CHR ''+'' then int (digits_val (takeWhile is_digit u))
                 else if d = CHR ''-'' then - int (digits_val (takeWhile is_digit u))
                 else int (digits_val (takeWhile is_digit t)))
          else 0)"

definition parse_unsigned :: "string \<Rightarrow> jsnum" where
  "parse_unsigned s =
     (if prefix ''Infinity'' s then PInf
      else
        let ip = takeWhile is_digit s;
            r1 = dropWhile is_digit s;
            has_dot = (r1 \<noteq> [] \<and> hd r1 = CHR ''.'');
            fp = (if has_dot then takeWhile is_digit (tl r1) else []);
            r2 = (if has_dot then dropWhile is_digit (tl r1) else r1)
        in if ip = [] \<and> fp = [] then NaN
           else Fin (scale10 (real (digits_val ip) + real (digits_val fp) / 10 ^ length fp)
                      (exponent_part r2)))"

definition parseFloat :: "string \<Rightarrow> jsnum" where
  "parseFloat s =
     (let t = dropWhile is_white s in
      case t of
        [] \<Rightarrow> NaN
      | c # r \<Rightarrow>
          if c = CHR ''+'' then parse_unsigned r
          else if c = CHR ''-'' then js_neg (parse_unsigned r)
          else parse_unsigned t)"

text \<open>\<open>s.includes(sub)\<close>: \<open>sub\<close> occurs in \<open>s\<close> as a contiguous substring.\<close>

fun str_includes :: "string \<Rightarrow> string \<Rightarrow> bool" where
  "str_includes [] sub = (sub = [])"
| "str_includes (c # cs) sub = (prefix sub (c # cs) \<or> str_includes cs sub)"

section \<open>Quads and windows\<close>

text \<open>
  An RDF/JS term with the fields the extractor reads: \<open>termType\<close>, \<open>value\<close> and, on a
  literal, the optional \<open>datatype\<close> (the value of the datatype's IRI). A window is a
  \<open>Set<Quad>\<close>; it is iterated in insertion order, so it is the list of its quads in that
  order. Quads are objects, compared by identity, so equal quads may occur twice.
\<close>

datatype Term =
    NamedNode string
  | BlankNode string
  | Literal string "string option"
  | Variable string
  | DefaultGraph

fun termType :: "Term \<Rightarrow> string" where
  "termType (NamedNode _) = ''NamedNode''"
| "termType (BlankNode _) = ''BlankNode''"
| "termType (Literal _ _) = ''Literal''"
| "termType (Variable _) = ''Variable''"
| "termType DefaultGraph = ''DefaultGraph''"

fun term_value :: "Term \<Rightarrow> string" where
  "term_value (NamedNode v) = v"
| "term_value (BlankNode v) = v"
| "term_value (Literal v _) = v"
| "term_value (Variable v) = v"
| "term_value DefaultGraph = []"

fun term_datatype :: "Term \<Rightarrow> string option" where
  "term_datatype (Literal _ d) = d"
| "term_datatype _ = None"

record Quad =
  subject :: Term
  predicate :: Term
  object :: Term
  graph :: Term

type_synonym window = "Quad list"

section \<open>SignatureExtractor\<close>

text \<open>The body of the loop over the window in \<open>extractSignature\<close>: \<open>numericValues\<close> is
  the array built so far.\<close>

definition harvest_step :: "jsnum list \<Rightarrow> Quad \<Rightarrow> jsnum list" where
  "harvest_step numericValues quad =
     (let objectValue = term_value (object quad) in
      if termType (object quad) = ''Literal'' then
        (case term_datatype (object quad) of
           Some datatypeValue \<Rightarrow>
             if str_includes datatypeValue ''integer'' \<or>
                str_includes datatypeValue ''decimal'' \<or>
                str_includes datatypeValue ''double'' \<or>
                str_includes datatypeValue ''float''
             then
               (let numValue = parseFloat objectValue in
                if \<not> isNaN numValue then numericValues @ [numValue] else numericValues)
             else if str_includes datatypeValue ''string'' then
               (let numValue = parseFloat objectValue in
                if \<not> isNaN numValue then numericValues @ [numValue] else numericValues)
             else numericValues
         | None \<Rightarrow>
             (let numValue = parseFloat objectValue in
              if \<not> isNaN numValue then numericValues @ [numValue] else numericValues))
      else numericValues)"

definition collect_numeric :: "window \<Rightarrow> jsnum list" where
  "collect_numeric windowData = foldl harvest_step [] windowData"

definition calculateMean :: "jsnum list \<Rightarrow> jsnum" where
  "calculateMean values =
     (if length values = 0 then Fin 0
      else js_div (reduce_sum values) (num (length values)))"

definition calculateVariance :: "jsnum list \<Rightarrow> jsnum" where
  "calculateVariance values =
     (if length values \<le> 1 then Fin 0
      else
        let mean = calculateMean values;
            squaredDiffs = map (\<lambda>val. Math_pow (js_sub val mean) 2) values
        in js_div (reduce_sum squaredDiffs) (js_sub (num (length values)) (Fin 1)))"

definition calculateSkewness :: "jsnum list \<Rightarrow> jsnum" where
  "calculateSkewness values =
     (if length values \<le> 2 then Fin 0
      else
        let mean = calculateMean values;
            variance = calculateVariance values;
            stdDev = Math_sqrt variance
        in if stdDev = Fin 0 then Fin 0
           else
             let cubedDiffs = map (\<lambda>val. Math_pow (js_div (js_sub val mean) stdDev) 3) values;
                 n = num (length values)
             in js_mul (js_div n (js_mul (js_sub n (Fin 1)) (js_sub n (Fin 2))))
                  (reduce_sum cubedDiffs))"

text \<open>
  A \<open>Map\<close> keeps its keys in insertion order; \<open>set\<close> on a key already present replaces
  the value in place. The counts of \<open>predicateCount\<close> are non-negative integers.
\<close>

fun map_get :: "('k \<times> 'v) list \<Rightarrow> 'k \<Rightarrow> 'v option" where
  "map_get [] k = None"
| "map_get ((k', v) # m) k = (if k' = k then Some v else map_get m k)"

fun map_set :: "('k \<times> 'v) list \<Rightarrow> 'k \<Rightarrow> 'v \<Rightarrow> ('k \<times> 'v) list" where
  "map_set [] k v = [(k, v)]"
| "map_set ((k', v') # m) k v = (if k' = k then (k, v) # m else (k', v') # map_set m k v)"

definition map_values :: "('k \<times> 'v) list \<Rightarrow> 'v list" where
  "map_values m = map snd m"

definition count_step :: "(string \<times> nat) list \<Rightarrow> Quad \<Rightarrow> (string \<times> nat) list" where
  "count_step predicateCount quad =
     (let pred = term_value (predicate quad) in
      map_set predicateCount pred
        ((case map_get predicateCount pred of None \<Rightarrow> 0 | Some c \<Rightarrow> c) + 1))"

definition entropy_step :: "nat \<Rightarrow> jsnum \<Rightarrow> nat \<Rightarrow> jsnum" where
  "entropy_step totalCount entropy count =
     (let probability = js_div (num count) (num totalCount) in
      if js_gt probability (Fin 0)
      then js_sub entropy (js_mul probability (Math_log2 probability))
      else entropy)"

definition calculateEntropy :: "window \<Rightarrow> jsnum" where
  "calculateEntropy quads =
     (let predicateCount = foldl count_step [] quads;
          totalCount = length quads
      in foldl (entropy_step totalCount) (Fin 0) (map_values predicateCount))"

text \<open>
  \<open>calculateFFTEntropy\<close>. The transform \<open>fft.fft\<close> belongs to the external package
  \<open>fft-js\<close>; it is a parameter \<open>fft\<close>, from an array of numbers to an array of
  \<open>[real, imag]\<close> pairs. \<open>targetLength\<close> is \<open>Math.pow(2, Math.ceil(Math.log2(n)))\<close>
  for the length \<open>n \<ge> 2\<close>, computed exactly. The \<open>while\<close> loop pushes zeros until
  the target length is reached.
\<close>

function pad_loop :: "jsnum list \<Rightarrow> nat \<Rightarrow> jsnum list" where
  "pad_loop paddedValues targetLength =
     (if length paddedValues < targetLength
      then pad_loop (paddedValues @ [Fin 0]) targetLength
      else paddedValues)"
  by pat_completeness auto
termination
  by (relation "measure (\<lambda>(paddedValues, targetLength). targetLength - length paddedValues)") auto

declare pad_loop.simps [simp del]

definition magnitude :: "jsnum \<times> jsnum \<Rightarrow> jsnum" where
  "magnitude complex =
     (let re = fst complex; im = snd complex
      in Math_sqrt (js_add (js_mul re re) (js_mul im im)))"

definition spectral_step :: "jsnum \<Rightarrow> jsnum \<Rightarrow> jsnum" where
  "spectral_step acc prob =
     (if js_gt prob (Fin 0) then js_sub acc (js_mul prob (Math_log2 prob)) else acc)"

definition calculateFFTEntropy :: "(jsnum list \<Rightarrow> (jsnum \<times> jsnum) list) \<Rightarrow> jsnum list \<Rightarrow> jsnum" where
  "calculateFFTEntropy fft values =
     (if length values = 0 then Fin 0
      else if length values = 1 then Fin 0
      else
        let targetLength = 2 ^ nat \<lceil>log 2 (real (length values))\<rceil>;
            paddedValues = pad_loop values targetLength;
            fftResult = fft paddedValues;
            magnitudes = map magnitude fftResult;
            totalMagnitude = reduce_sum magnitudes
        in if totalMagnitude = Fin 0 then Fin 0
           else
             let probabilities = map (\<lambda>mag. js_div mag totalMagnitude) magnitudes
             in foldl spectral_step (Fin 0) probabilities)"

record StreamSignature =
  tripleCount :: jsnum
  variance :: jsnum
  skewness :: jsnum
  entropy :: jsnum
  fftEntropy :: jsnum

definition extractSignature :: "(jsnum list \<Rightarrow> (jsnum \<times> jsnum) list) \<Rightarrow> window \<Rightarrow> StreamSignature" where
  "extractSignature fft windowData =
     (let numericValues = collect_numeric windowData
      in \<lparr> tripleCount = num (length windowData),
           variance = calculateVariance numericValues,
           skewness = calculateSkewness numericValues,
           entropy = calculateEntropy windowData,
           fftEntropy = calculateFFTEntropy fft numericValues \<rparr>)"


section \<open>The earlier SignatureExtractor\<close>

text \<open>The implementation before \<open>fftEntropy\<close> was added: the same class without
  \<open>calculateFFTEntropy\<close>, returning a signature of four fields.\<close>

definition harvest_step_v1 :: "jsnum list \<Rightarrow> Quad \<Rightarrow> jsnum list" where
  "harvest_step_v1 numericValues quad =
     (let objectValue = term_value (object quad) in
      if termType (object quad) = ''Literal'' then
        (case term_datatype (object quad) of
           Some datatypeValue \<Rightarrow>
             if str_includes datatypeValue ''integer'' \<or>
                str_includes datatypeValue ''decimal'' \<or>
                str_includes datatypeValue ''double'' \<or>
                str_includes datatypeValue ''float''
             then
               (let numValue = parseFloat objectValue in
                if \<not> isNaN numValue then numericValues @ [numValue] else numericValues)
             else if str_includes datatypeValue ''string'' then
               (let numValue = parseFloat objectValue in
                if \<not> isNaN numValue then numericValues @ [numValue] else numericValues)
             else numericValues
         | None \<Rightarrow>
             (let numValue = parseFloat objectValue in
              if \<not> isNaN numValue then numericValues @ [numValue] else numericValues))
      else numericValues)"

definition calculateMean_v1 :: "jsnum list \<Rightarrow> jsnum" where
  "calculateMean_v1 values =
     (if length values = 0 then Fin 0
      else js_div (reduce_sum values) (num (length values)))"

definition calculateVariance_v1 :: "jsnum list \<Rightarrow> jsnum" where
  "calculateVariance_v1 values =
     (if length values \<le> 1 then Fin 0
      else
        let mean = calculateMean_v1 values;
            squaredDiffs = map (\<lambda>val. Math_pow (js_sub val mean) 2) values
        in js_div (reduce_sum squaredDiffs) (js_sub (num (length values)) (Fin 1)))"

definition calculateSkewness_v1 :: "jsnum list \<Rightarrow> jsnum" where
  "calculateSkewness_v1 values =
     (if length values \<le> 2 then Fin 0
      else
        let mean = calculateMean_v1 values;
            var = calculateVariance_v1 values;
            stdDev = Math_sqrt var
        in if stdDev = Fin 0 then Fin 0
           else
             let cubedDiffs = map (\<lambda>val. Math_pow (js_div (js_sub val mean) stdDev) 3) values;
                 n = num (length values)
             in js_mul (js_div n (js_mul (js_sub n (Fin 1)) (js_sub n (Fin 2))))
                  (reduce_sum cubedDiffs))"

definition calculateEntropy_v1 :: "window \<Rightarrow> jsnum" where
  "calculateEntropy_v1 quads =
     (let predicateCount =
            foldl (\<lambda>predicateCount quad.
                     let pred = term_value (predicate quad) in
                     map_set predicateCount pred
                       ((case map_get predicateCount pred of None \<Rightarrow> 0 | Some c \<Rightarrow> c) + 1))
                  [] quads;
          totalCount = length quads
      in foldl (\<lambda>acc count.
                  let probability = js_div (num count) (num totalCount) in
                  if js_gt probability (Fin 0)
                  then js_sub acc (js_mul probability (Math_log2 probability))
                  else acc)
               (Fin 0) (map_values predicateCount))"

record StreamSignature_v1 =
  tripleCount_v1 :: jsnum
  variance_v1 :: jsnum
  skewness_v1 :: jsnum
  entropy_v1 :: jsnum

definition extractSignature_v1 :: "window \<Rightarrow> StreamSignature_v1" where
  "extractSignature_v1 windowData =
     (let numericValues = foldl harvest_step_v1 [] windowData
      in \<lparr> tripleCount_v1 = num (length windowData),
           variance_v1 = calculateVariance_v1 numericValues,
           skewness_v1 = calculateSkewness_v1 numericValues,
           entropy_v1 = calculateEntropy_v1 windowData \<rparr>)"

section \<open>HiveScoutBee\<close>

record ApproachThresholds =
  th_variance :: "jsnum option"
  th_skewness :: "jsnum option"
  th_entropy :: "jsnum option"
  th_fftEntropy :: "jsnum option"
  th_tripleCount :: "jsnum option"

record ApproachConfig =
  name :: string
  description :: "string option"
  minThresholds :: "ApproachThresholds option"
  maxThresholds :: "ApproachThresholds option"
  priority :: "jsnum option"

record ApproachRecommendation =
  recommendedApproach :: string
  matchingApproaches :: "string list"
  signature :: StreamSignature
  confidence :: jsnum

text \<open>The object's only state is the registry \<open>approachConfigs\<close>, a \<open>Map\<close> from names to
  configurations in insertion order; the extractor it holds has no state.\<close>

record HiveScoutBee =
  approachConfigs :: "(string \<times> ApproachConfig) list"

text \<open>\<open>Map.prototype.delete\<close>: the map without the key, and whether the key was there.\<close>

definition map_delete :: "('k \<times> 'v) list \<Rightarrow> 'k \<Rightarrow> bool \<times> ('k \<times> 'v) list" where
  "map_delete m k = (map_get m k \<noteq> None, filter (\<lambda>kv. fst kv \<noteq> k) m)"

definition map_keys :: "('k \<times> 'v) list \<Rightarrow> 'k list" where
  "map_keys m = map fst m"

definition new_HiveScoutBee :: "ApproachConfig list \<Rightarrow> HiveScoutBee" where
  "new_HiveScoutBee approaches =
     \<lparr> approachConfigs = foldl (\<lambda>m approach. map_set m (name approach) approach) [] approaches \<rparr>"

definition addApproach :: "HiveScoutBee \<Rightarrow> ApproachConfig \<Rightarrow> HiveScoutBee" where
  "addApproach this approach =
     this\<lparr> approachConfigs := map_set (approachConfigs this) (name approach) approach \<rparr>"

definition removeApproach :: "HiveScoutBee \<Rightarrow> string \<Rightarrow> bool \<times> HiveScoutBee" where
  "removeApproach this approachName =
     (let (existed, m) = map_delete (approachConfigs this) approachName
      in (existed, this\<lparr> approachConfigs := m \<rparr>))"


definition getApproachConfig :: "HiveScoutBee \<Rightarrow> string \<Rightarrow> ApproachConfig option" where
  "getApproachConfig this approachName = map_get (approachConfigs this) approachName"

text \<open>The five \<open>{threshold, value}\<close> checks of one thresholds object, in the order of the
  source; a threshold that is \<open>undefined\<close> is \<open>None\<close>.\<close>

definition checks :: "ApproachThresholds \<Rightarrow> StreamSignature \<Rightarrow> (jsnum option \<times> jsnum) list" where
  "checks th sg =
     [(th_variance th, variance sg),
      (th_skewness th, skewness sg),
      (th_entropy th, entropy sg),
      (th_fftEntropy th, fftEntropy sg),
      (th_tripleCount th, tripleCount sg)]"

definition spec_min_step :: "jsnum \<times> nat \<Rightarrow> jsnum option \<times> jsnum \<Rightarrow> jsnum \<times> nat" where
  "spec_min_step st check =
     (let (specificityScore, thresholdCount) = st; (threshold, val) = check in
      case threshold of
        None \<Rightarrow> st
      | Some t \<Rightarrow>
          if js_gt val (Fin 0)
          then (js_add specificityScore (js_div t (js_add val (Fin 1))), thresholdCount + 1)
          else (js_add specificityScore t, thresholdCount + 1))"

definition spec_max_step :: "jsnum \<times> nat \<Rightarrow> jsnum option \<times> jsnum \<Rightarrow> jsnum \<times> nat" where
  "spec_max_step st check =
     (let (specificityScore, thresholdCount) = st; (threshold, val) = check in
      case threshold of
        None \<Rightarrow> st
      | Some t \<Rightarrow>
          (js_add specificityScore (js_div (Fin 1) (js_add t (Fin 1))), thresholdCount + 1))"

definition calculateSpecificity :: "StreamSignature \<Rightarrow> ApproachConfig \<Rightarrow> jsnum" where
  "calculateSpecificity sg config =
     (let s0 = (Fin 0, 0);
          s1 = (case minThresholds config of
                  Some th \<Rightarrow> foldl spec_min_step s0 (checks th sg)
                | None \<Rightarrow> s0);
          s2 = (case maxThresholds config of
                  Some th \<Rightarrow> foldl spec_max_step s1 (checks th sg)
                | None \<Rightarrow> s1);
          (specificityScore, thresholdCount) = s2
      in if thresholdCount > 0 then js_div specificityScore (num thresholdCount) else Fin 0)"

record MatchResult =
  matches :: bool
  score :: jsnum

definition eval_min_step :: "bool \<times> jsnum \<times> nat \<Rightarrow> jsnum option \<times> jsnum \<Rightarrow> bool \<times> jsnum \<times> nat" where
  "eval_min_step st check =
     (let (ok, totalScore, criteriaCount) = st; (threshold, val) = check in
      case threshold of
        None \<Rightarrow> st
      | Some t \<Rightarrow>
          if js_ge val t
          then (ok, js_add totalScore (Fin 1), criteriaCount + 1)
          else (False, js_add totalScore (Math_max (Fin 0) (js_div val t)), criteriaCount + 1))"

definition eval_max_step :: "bool \<times> jsnum \<times> nat \<Rightarrow> jsnum option \<times> jsnum \<Rightarrow> bool \<times> jsnum \<times> nat" where
  "eval_max_step st check =
     (let (ok, totalScore, criteriaCount) = st; (threshold, val) = check in
      case threshold of
        None \<Rightarrow> st
      | Some t \<Rightarrow>
          if js_le val t
          then (ok, js_add totalScore (Fin 1), criteriaCount + 1)
          else (False, js_add totalScore (Math_max (Fin 0) (js_div t val)), criteriaCount + 1))"

definition evaluateApproach :: "StreamSignature \<Rightarrow> ApproachConfig \<Rightarrow> MatchResult" where
  "evaluateApproach sg config =
     (let s0 = (True, Fin 0, 0);
          s1 = (case minThresholds config of
                  Some th \<Rightarrow> foldl eval_min_step s0 (checks th sg)
                | None \<Rightarrow> s0);
          s2 = (case maxThresholds config of
                  Some th \<Rightarrow> foldl eval_max_step s1 (checks th sg)
                | None \<Rightarrow> s1);
          (ok, totalScore, criteriaCount) = s2
      in \<lparr> matches = ok,
           score = (if criteriaCount > 0 then js_div totalScore (num criteriaCount) else Fin 0) \<rparr>)"

text \<open>An entry of \<open>approachEvaluations\<close>.\<close>

record Evaluation =
  ev_name :: string
  ev_score :: jsnum
  ev_specificity :: jsnum
  ev_priority :: jsnum

text \<open>\<open>config.priority || 0\<close>: \<open>undefined\<close>, \<open>NaN\<close> and \<open>0\<close> are falsy.\<close>

definition priority_or_zero :: "jsnum option \<Rightarrow> jsnum" where
  "priority_or_zero p = (case p of None \<Rightarrow> Fin 0 | Some v \<Rightarrow> if v = NaN \<or> v = Fin 0 then Fin 0 else v)"

text \<open>The comparator given to \<open>sort\<close>.\<close>

definition compare_evaluations :: "Evaluation \<Rightarrow> Evaluation \<Rightarrow> jsnum" where
  "compare_evaluations a b =
     (if js_gt (Math_abs (js_sub (ev_specificity a) (ev_specificity b))) (Fin (1 / 100))
      then js_sub (ev_specificity b) (ev_specificity a)
      else js_sub (ev_priority b) (ev_priority a))"

text \<open>
  \<open>Array.prototype.sort\<close> with a comparator, as a stable insertion sort: each element is
  put before the first element of the sorted prefix that the comparator places after it
  (\<open>cmp y x > 0\<close>; a \<open>NaN\<close> result counts as 0). Every stable sort gives this result when
  the comparator is a consistent order; for two elements it is what ECMAScript prescribes.
\<close>

fun insert_by :: "('a \<Rightarrow> 'a \<Rightarrow> jsnum) \<Rightarrow> 'a \<Rightarrow> 'a list \<Rightarrow> 'a list" where
  "insert_by cmp x [] = [x]"
| "insert_by cmp x (y # ys) =
     (if js_gt (cmp y x) (Fin 0) then x # y # ys else y # insert_by cmp x ys)"

definition array_sort :: "('a \<Rightarrow> 'a \<Rightarrow> jsnum) \<Rightarrow> 'a list \<Rightarrow> 'a list" where
  "array_sort cmp xs = foldl (\<lambda>acc x. insert_by cmp x acc) [] xs"

text \<open>The body of the loop over the registry in \<open>chooseApproach\<close>.\<close>

definition choose_step ::
  "StreamSignature \<Rightarrow> string list \<times> Evaluation list \<Rightarrow> string \<times> ApproachConfig
     \<Rightarrow> string list \<times> Evaluation list" where
  "choose_step sg st entry =
     (let (matchingApproaches, approachEvaluations) = st;
          (approachName, config) = entry;
          matchResult = evaluateApproach sg config
      in if matches matchResult then
           (let specificity = calculateSpecificity sg config
            in (matchingApproaches @ [approachName],
                approachEvaluations @
                  [\<lparr> ev_name = approachName,
                     ev_score = score matchResult,
                     ev_specificity = specificity,
                     ev_priority = priority_or_zero (priority config) \<rparr>]))
         else st)"

text \<open>\<open>chooseApproach\<close> reads the registry and assigns no field: it returns the
  recommendation and the object as it was.\<close>

definition chooseApproach ::
  "(jsnum list \<Rightarrow> (jsnum \<times> jsnum) list) \<Rightarrow> HiveScoutBee \<Rightarrow> window
     \<Rightarrow> ApproachRecommendation \<times> HiveScoutBee" where
  "chooseApproach fft this windowData =
     (let sg = extractSignature fft windowData;
          (matchingApproaches, approachEvaluations) =
            foldl (choose_step sg) ([], []) (approachConfigs this);
          (recommended, conf) =
            (if length approachEvaluations > 0 then
               (let ranked = array_sort compare_evaluations approachEvaluations
                in (ev_name (hd ranked), Math_min (ev_score (hd ranked)) (Fin 1)))
             else (''default'', Fin 0))
      in (\<lparr> recommendedApproach = recommended,
            matchingApproaches = matchingApproaches,
            signature = sg,
            confidence = conf \<rparr>, this))"

section \<open>The specification's formulas\<close>

text \<open>
  The definitions of this section follow the words of the specification, over the reals and
  with sums over lists and sets. They are what the embedded code is compared with; the
  names start with \<open>spec_\<close>, or with \<open>claimed_\<close> where a claim's wording differs from what
  the code computes.
\<close>

subsection \<open>Statistics of the harvested values\<close>

text \<open>
  The mean, the sample variance (the squared deviations from the mean, summed and divided by
  \<open>n - 1\<close>; 0 below two values) and the standard deviation, its square root.
\<close>

definition spec_mean :: "real list \<Rightarrow> real" where
  "spec_mean xs = sum_list xs / real (length xs)"

definition spec_sample_variance :: "real list \<Rightarrow> real" where
  "spec_sample_variance xs =
     (if length xs < 2 then 0
      else (\<Sum>x\<leftarrow>xs. (x - spec_mean xs)\<^sup>2) / (real (length xs) - 1))"





subsection \<open>Predicate entropy\<close>

text \<open>
  The probability of a predicate value is the number of triples that carry it divided by
  the number of triples of the window; the entropy is \<open>- \<Sum> p log\<^sub>2 p\<close> over the distinct
  predicate values.
\<close>

definition predicates_of :: "window \<Rightarrow> string list" where
  "predicates_of w = map (\<lambda>q. term_value (predicate q)) w"

definition spec_probability :: "window \<Rightarrow> string \<Rightarrow> real" where
  "spec_probability w p = real (count_list (predicates_of w) p) / real (length w)"

definition spec_entropy :: "window \<Rightarrow> real" where
  "spec_entropy w =
     - (\<Sum>p \<in> set (predicates_of w). spec_probability w p * log 2 (spec_probability w p))"

subsection \<open>Spectral entropy\<close>











definition dft :: "jsnum list \<Rightarrow> (jsnum \<times> jsnum) list" where
  "dft vs =
     map (\<lambda>k. (reduce_sum (map (\<lambda>j. js_mul (vs ! j)
                   (Fin (cos (2 * pi * real j * real k / real (length vs))))) [0..<length vs]),
               reduce_sum (map (\<lambda>j. js_mul (vs ! j)
                   (Fin (- sin (2 * pi * real j * real k / real (length vs))))) [0..<length vs])))
         [0..<length vs]"

subsection \<open>Harvesting\<close>

text \<open>
  A number is harvested from a quad when its object is a literal, the datatype tag is
  absent or contains one of the five substrings, and \<open>parseFloat\<close> of the text is not
  \<open>NaN\<close>. \<open>claimed_harvested\<close> is the wording of claim C5, which asks for a finite number.
\<close>

definition numeric_tag :: "string option \<Rightarrow> bool" where
  "numeric_tag d =
     (case d of
        None \<Rightarrow> True
      | Some tag \<Rightarrow>
          str_includes tag ''integer'' \<or> str_includes tag ''decimal'' \<or>
          str_includes tag ''double'' \<or> str_includes tag ''float'' \<or>
          str_includes tag ''string'')"

definition spec_harvested :: "Quad \<Rightarrow> bool" where
  "spec_harvested q =
     (case object q of
        Literal lexical d \<Rightarrow> numeric_tag d \<and> parseFloat lexical \<noteq> NaN
      | _ \<Rightarrow> False)"

fun is_finite :: "jsnum \<Rightarrow> bool" where
  "is_finite (Fin _) = True"
| "is_finite _ = False"

definition claimed_harvested :: "Quad \<Rightarrow> bool" where
  "claimed_harvested q =
     (case object q of
        Literal lexical d \<Rightarrow> numeric_tag d \<and> is_finite (parseFloat lexical)
      | _ \<Rightarrow> False)"

subsection \<open>Matching and ranking\<close>

text \<open>
  The declared thresholds of a thresholds object, each paired with the signature field it
  bounds. A rule is satisfied when every declared min-threshold is at most its field and
  every declared max-threshold at least its field.
\<close>

definition declared_of :: "(jsnum option \<times> jsnum) list \<Rightarrow> (jsnum \<times> jsnum) list" where
  "declared_of cs =
     concat (map (\<lambda>(threshold, val). case threshold of None \<Rightarrow> [] | Some t \<Rightarrow> [(t, val)]) cs)"

definition declared :: "ApproachThresholds option \<Rightarrow> StreamSignature \<Rightarrow> (jsnum \<times> jsnum) list" where
  "declared tho sg = (case tho of None \<Rightarrow> [] | Some th \<Rightarrow> declared_of (checks th sg))"

definition spec_satisfies :: "StreamSignature \<Rightarrow> ApproachConfig \<Rightarrow> bool" where
  "spec_satisfies sg config =
     (list_all (\<lambda>(t, val). js_ge val t) (declared (minThresholds config) sg) \<and>
      list_all (\<lambda>(t, val). js_le val t) (declared (maxThresholds config) sg))"

text \<open>
  The contribution of a declared threshold \<open>t\<close> on a field of value \<open>val\<close> to the match score:
  1 when satisfied, otherwise \<open>max(0, val / t)\<close> for a min-threshold and \<open>max(0, t / val)\<close>
  for a max-threshold. The match score is the average of the contributions, 0 when no
  threshold is declared.
\<close>

definition min_contribution :: "jsnum \<times> jsnum \<Rightarrow> jsnum" where
  "min_contribution tv =
     (let (t, val) = tv in if js_ge val t then Fin 1 else Math_max (Fin 0) (js_div val t))"

definition max_contribution :: "jsnum \<times> jsnum \<Rightarrow> jsnum" where
  "max_contribution tv =
     (let (t, val) = tv in if js_le val t then Fin 1 else Math_max (Fin 0) (js_div t val))"

definition spec_contributions :: "StreamSignature \<Rightarrow> ApproachConfig \<Rightarrow> jsnum list" where
  "spec_contributions sg config =
     map min_contribution (declared (minThresholds config) sg) @
     map max_contribution (declared (maxThresholds config) sg)"

definition spec_match_score :: "StreamSignature \<Rightarrow> ApproachConfig \<Rightarrow> jsnum" where
  "spec_match_score sg config =
     (let cs = spec_contributions sg config
      in if cs = [] then Fin 0 else js_div (reduce_sum cs) (num (length cs)))"


definition nonneg_thresholds_finite_fields :: "StreamSignature \<Rightarrow> ApproachConfig \<Rightarrow> bool" where
  "nonneg_thresholds_finite_fields sg config =
     list_all (\<lambda>(t, val). js_ge t (Fin 0) \<and> is_finite val)
       (declared (minThresholds config) sg @ declared (maxThresholds config) sg)"

definition no_declared :: "ApproachThresholds \<Rightarrow> bool" where
  "no_declared th =
     (th_variance th = None \<and> th_skewness th = None \<and> th_entropy th = None \<and>
      th_fftEntropy th = None \<and> th_tripleCount th = None)"

definition declares_no_thresholds :: "ApproachConfig \<Rightarrow> bool" where
  "declares_no_thresholds config =
     ((case minThresholds config of None \<Rightarrow> True | Some th \<Rightarrow> no_declared th) \<and>
      (case maxThresholds config of None \<Rightarrow> True | Some th \<Rightarrow> no_declared th))"

text \<open>The entry of \<open>approachEvaluations\<close> that \<open>chooseApproach\<close> pushes for a registry entry, and
  the registry entries whose rules are satisfied, in the registry's order.\<close>

definition evaluation_of :: "StreamSignature \<Rightarrow> string \<times> ApproachConfig \<Rightarrow> Evaluation" where
  "evaluation_of sg entry =
     \<lparr> ev_name = fst entry,
       ev_score = score (evaluateApproach sg (snd entry)),
       ev_specificity = calculateSpecificity sg (snd entry),
       ev_priority = priority_or_zero (priority (snd entry)) \<rparr>"

definition matching_entries :: "StreamSignature \<Rightarrow> (string \<times> ApproachConfig) list \<Rightarrow> (string \<times> ApproachConfig) list" where
  "matching_entries sg reg = filter (\<lambda>entry. spec_satisfies sg (snd entry)) reg"


section \<open>Auxiliary definitions for the proofs\<close>

definition count_of :: "('k \<times> nat) list \<Rightarrow> 'k \<Rightarrow> nat" where
  "count_of m k = (case map_get m k of None \<Rightarrow> 0 | Some c \<Rightarrow> c)"


section \<open>Data of the test suite\<close>

text \<open>What \<open>quad(namedNode(s), namedNode(p), literal(v))\<close> of the tests builds: a literal
  made without a datatype carries \<open>xsd:string\<close>.\<close>

definition test_quad :: "string \<Rightarrow> string \<Rightarrow> Quad" where
  "test_quad p v =
     \<lparr> subject = NamedNode ''http://example.org/s1'',
       predicate = NamedNode p,
       object = Literal v (Some ''http://www.w3.org/2001/XMLSchema#string''),
       graph = DefaultGraph \<rparr>"

definition window_of :: "string list \<Rightarrow> window" where
  "window_of vs = map (test_quad ''http://example.org/p1'') vs"

definition empty_thresholds :: ApproachThresholds where
  "empty_thresholds =
     \<lparr> th_variance = None, th_skewness = None, th_entropy = None,
       th_fftEntropy = None, th_tripleCount = None \<rparr>"

definition rule_A :: ApproachConfig where
  "rule_A =
     \<lparr> name = ''A'', description = None, minThresholds = None,
       maxThresholds = Some (empty_thresholds\<lparr> th_tripleCount := Some (Fin 99) \<rparr>),
       priority = None \<rparr>"

definition rule_B :: ApproachConfig where
  "rule_B =
     \<lparr> name = ''B'', description = None, minThresholds = None, maxThresholds = None,
       priority = Some (Fin 5) \<rparr>"



definition impossible_approach :: ApproachConfig where
  "impossible_approach =
     \<lparr> name = ''impossible-approach'', description = None,
       minThresholds = Some (empty_thresholds\<lparr> th_variance := Some (Fin 1000000),
                                              th_entropy := Some (Fin 100) \<rparr>),
       maxThresholds = None, priority = None \<rparr>"

definition perfect_match :: ApproachConfig where
  "perfect_match =
     \<lparr> name = ''perfect-match'', description = None,
       minThresholds = Some (empty_thresholds\<lparr> th_variance := Some (Fin 0),
                                              th_entropy := Some (Fin 0) \<rparr>),
       maxThresholds = Some (empty_thresholds\<lparr> th_variance := Some (Fin 1),
                                              th_entropy := Some (Fin 1) \<rparr>),
       priority = None \<rparr>"



section \<open>Finite arithmetic\<close>

lemma foldl_js_add_fin:
  "foldl (\<lambda>sum val. js_add sum val) (Fin a) (map Fin xs) = Fin (a + sum_list xs)"
  by (induction xs arbitrary: a) (simp_all add: add.assoc)

lemma reduce_sum_fin: "reduce_sum (map Fin xs) = Fin (sum_list xs)"
  by (simp add: reduce_sum_def foldl_js_add_fin)

lemma calculateMean_fin:
  "xs \<noteq> [] \<Longrightarrow> calculateMean (map Fin xs) = Fin (spec_mean xs)"
  by (simp add: calculateMean_def reduce_sum_fin num_def spec_mean_def)

lemma reduce_sum_map_fin:
  assumes "\<And>x. G (Fin x) = Fin (g x)"
  shows "reduce_sum (map G (map Fin xs)) = Fin (sum_list (map g xs))"
proof -
  have "map G (map Fin xs) = map Fin (map g xs)"
    by (simp add: assms)
  then show ?thesis
    by (simp only: reduce_sum_fin)
qed

lemma calculateVariance_fin:
  "calculateVariance (map Fin xs) = Fin (spec_sample_variance xs)"
proof (cases "length xs \<le> 1")
  case True
  then show ?thesis by (simp add: calculateVariance_def spec_sample_variance_def)
next
  case False
  then have ne: "xs \<noteq> []" and n: "real (length xs) - 1 \<noteq> 0" by auto
  have sq: "reduce_sum (map (\<lambda>val. Math_pow (js_sub val (Fin (spec_mean xs))) 2) (map Fin xs))
      = Fin (\<Sum>x\<leftarrow>xs. (x - spec_mean xs)\<^sup>2)"
    by (rule reduce_sum_map_fin) (simp add: js_sub_def)
  have "calculateVariance (map Fin xs) =
      js_div (reduce_sum (map (\<lambda>val. Math_pow (js_sub val (Fin (spec_mean xs))) 2) (map Fin xs)))
        (js_sub (num (length xs)) (Fin 1))"
    using False by (simp add: calculateVariance_def calculateMean_fin[OF ne] Let_def)
  also have "\<dots> = Fin (spec_sample_variance xs)"
    using False n by (simp only: sq) (simp add: num_def js_sub_def spec_sample_variance_def)
  finally show ?thesis .
qed




lemma variance_field:
  "collect_numeric w = map Fin xs \<Longrightarrow>
   variance (extractSignature fft w) = Fin (spec_sample_variance xs)"
  by (simp add: extractSignature_def Let_def calculateVariance_fin)

lemma tripleCount_field: "tripleCount (extractSignature fft w) = num (length w)"
  by (simp add: extractSignature_def Let_def)


section \<open>Predicate entropy\<close>

lemma map_get_map_set:
  "map_get (map_set m k v) k' = (if k' = k then Some v else map_get m k')"
  by (induction m) auto

lemma keys_map_set:
  "map fst (map_set m k v) = (if k \<in> fst ` set m then map fst m else map fst m @ [k])"
proof (induction m)
  case Nil
  then show ?case by simp
next
  case (Cons kv m)
  obtain k' v' where kv: "kv = (k', v')" by (cases kv)
  show ?case
  proof (cases "k' = k")
    case True
    then show ?thesis by (simp add: kv)
  next
    case False
    then show ?thesis using Cons.IH by (simp add: kv)
  qed
qed

lemma distinct_map_set:
  "distinct (map fst m) \<Longrightarrow> distinct (map fst (map_set m k v))"
  by (simp add: keys_map_set)

lemma count_step_keys:
  "fst ` set (count_step m q) = insert (term_value (predicate q)) (fst ` set m)"
proof -
  have "set (map fst (count_step m q)) = insert (term_value (predicate q)) (set (map fst m))"
    by (auto simp: count_step_def Let_def keys_map_set)
  then show ?thesis by simp
qed

lemma count_step_distinct:
  "distinct (map fst m) \<Longrightarrow> distinct (map fst (count_step m q))"
  by (simp add: count_step_def Let_def distinct_map_set)

lemma count_step_count:
  "count_of (count_step m q) p =
     count_of m p + (if term_value (predicate q) = p then 1 else 0)"
  by (auto simp: count_step_def Let_def count_of_def map_get_map_set split: option.splits)

lemma foldl_count_step_distinct:
  "distinct (map fst m) \<Longrightarrow> distinct (map fst (foldl count_step m qs))"
  by (induction qs arbitrary: m) (simp_all add: count_step_distinct)

lemma foldl_count_step_keys:
  "fst ` set (foldl count_step m qs) = fst ` set m \<union> set (predicates_of qs)"
  by (induction qs arbitrary: m) (simp_all add: count_step_keys predicates_of_def)

lemma foldl_count_step_count:
  "count_of (foldl count_step m qs) p = count_of m p + count_list (predicates_of qs) p"
  by (induction qs arbitrary: m) (auto simp: count_step_count predicates_of_def)

lemma map_get_distinct: "distinct (map fst m) \<Longrightarrow> (k, v) \<in> set m \<Longrightarrow> map_get m k = Some v"
  by (induction m) (auto simp: rev_image_eqI)

lemma values_by_keys:
  "distinct (map fst m) \<Longrightarrow> map_values m = map (count_of m) (map fst m)"
  by (auto simp: map_values_def count_of_def map_get_distinct)

lemma entropy_step_fin:
  "0 < N \<Longrightarrow> entropy_step N (Fin a) c = Fin (a - (real c / real N) * log 2 (real c / real N))"
  by (simp add: entropy_step_def num_def js_gt_def js_sub_def Let_def)

lemma foldl_entropy_step_fin:
  "0 < N \<or> cs = [] \<Longrightarrow>
   foldl (entropy_step N) (Fin a) cs =
     Fin (a - (\<Sum>c\<leftarrow>cs. (real c / real N) * log 2 (real c / real N)))"
proof (induction cs arbitrary: a)
  case Nil
  then show ?case by simp
next
  case (Cons c cs)
  then have N: "0 < N" by simp
  show ?case
    using Cons.IH[of "a - (real c / real N) * log 2 (real c / real N)"] N
    by (simp add: entropy_step_fin)
qed

lemma calculateEntropy_fin: "calculateEntropy w = Fin (spec_entropy w)"
proof -
  define m where "m = foldl count_step [] w"
  have d: "distinct (map fst m)"
    unfolding m_def by (rule foldl_count_step_distinct) simp
  have k: "set (map fst m) = set (predicates_of w)"
    unfolding m_def using foldl_count_step_keys[of "[]" w] by simp
  have c: "count_of m p = count_list (predicates_of w) p" for p
    unfolding m_def using foldl_count_step_count[of "[]" w p] by (simp add: count_of_def)
  have e: "0 < length w \<or> map_values m = []"
    unfolding m_def by (cases w) (simp_all add: map_values_def)
  have "calculateEntropy w = foldl (entropy_step (length w)) (Fin 0) (map_values m)"
    by (simp add: calculateEntropy_def m_def Let_def)
  also have "\<dots> = Fin (0 - (\<Sum>c\<leftarrow>map_values m.
      (real c / real (length w)) * log 2 (real c / real (length w))))"
    by (rule foldl_entropy_step_fin) (rule e)
  also have "(\<Sum>c\<leftarrow>map_values m. (real c / real (length w)) * log 2 (real c / real (length w)))
      = (\<Sum>p\<leftarrow>map fst m. spec_probability w p * log 2 (spec_probability w p))"
    by (simp add: values_by_keys[OF d] comp_def c spec_probability_def)
  also have "\<dots> = (\<Sum>p \<in> set (predicates_of w). spec_probability w p * log 2 (spec_probability w p))"
    using sum_list_distinct_conv_sum_set[OF d] by (simp only: k)
  finally show ?thesis
    by (simp add: spec_entropy_def)
qed

section \<open>Evaluating a rule\<close>

lemma declared_of_simps:
  "declared_of [] = []"
  "declared_of ((None, v) # cs) = declared_of cs"
  "declared_of ((Some t, v) # cs) = (t, v) # declared_of cs"
  by (simp_all add: declared_of_def)

lemma declared_Some: "declared (Some th) sg = declared_of (checks th sg)"
  by (simp add: declared_def)

lemma declared_None: "declared None sg = []"
  by (simp add: declared_def)

lemma eval_min_step_simps:
  "eval_min_step (ok, tot, n) (None, v) = (ok, tot, n)"
  "eval_min_step (ok, tot, n) (Some t, v) =
     (ok \<and> js_ge v t, js_add tot (min_contribution (t, v)), Suc n)"
  by (simp_all add: eval_min_step_def min_contribution_def)

lemma eval_max_step_simps:
  "eval_max_step (ok, tot, n) (None, v) = (ok, tot, n)"
  "eval_max_step (ok, tot, n) (Some t, v) =
     (ok \<and> js_le v t, js_add tot (max_contribution (t, v)), Suc n)"
  by (simp_all add: eval_max_step_def max_contribution_def)

lemma foldl_eval_min_step:
  "foldl eval_min_step (ok, tot, n) cs =
     (ok \<and> list_all (\<lambda>(t, val). js_ge val t) (declared_of cs),
      foldl (\<lambda>sum val. js_add sum val) tot (map min_contribution (declared_of cs)),
      n + length (declared_of cs))"
proof (induction cs arbitrary: ok tot n)
  case Nil
  then show ?case by (simp add: declared_of_simps)
next
  case (Cons c cs)
  obtain t v where c: "c = (t, v)" by (cases c)
  show ?case
    by (cases t) (simp_all add: c eval_min_step_simps declared_of_simps Cons.IH)
qed

lemma foldl_eval_max_step:
  "foldl eval_max_step (ok, tot, n) cs =
     (ok \<and> list_all (\<lambda>(t, val). js_le val t) (declared_of cs),
      foldl (\<lambda>sum val. js_add sum val) tot (map max_contribution (declared_of cs)),
      n + length (declared_of cs))"
proof (induction cs arbitrary: ok tot n)
  case Nil
  then show ?case by (simp add: declared_of_simps)
next
  case (Cons c cs)
  obtain t v where c: "c = (t, v)" by (cases c)
  show ?case
    by (cases t) (simp_all add: c eval_max_step_simps declared_of_simps Cons.IH)
qed

lemma eval_min_phase:
  "(case mt of Some th \<Rightarrow> foldl eval_min_step (ok, tot, n) (checks th sg) | None \<Rightarrow> (ok, tot, n)) =
     (ok \<and> list_all (\<lambda>(t, val). js_ge val t) (declared mt sg),
      foldl (\<lambda>sum val. js_add sum val) tot (map min_contribution (declared mt sg)),
      n + length (declared mt sg))"
  by (cases mt) (simp_all add: foldl_eval_min_step declared_Some declared_None)

lemma eval_max_phase:
  "(case mt of Some th \<Rightarrow> foldl eval_max_step (ok, tot, n) (checks th sg) | None \<Rightarrow> (ok, tot, n)) =
     (ok \<and> list_all (\<lambda>(t, val). js_le val t) (declared mt sg),
      foldl (\<lambda>sum val. js_add sum val) tot (map max_contribution (declared mt sg)),
      n + length (declared mt sg))"
  by (cases mt) (simp_all add: foldl_eval_max_step declared_Some declared_None)

lemma evaluateApproach_spec:
  "evaluateApproach sg config =
     \<lparr> matches = spec_satisfies sg config, score = spec_match_score sg config \<rparr>"
proof -
  have "evaluateApproach sg config =
      (let (ok, totalScore, criteriaCount) =
         (list_all (\<lambda>(t, val). js_ge val t) (declared (minThresholds config) sg) \<and>
          list_all (\<lambda>(t, val). js_le val t) (declared (maxThresholds config) sg),
          reduce_sum (spec_contributions sg config),
          length (spec_contributions sg config))
       in \<lparr> matches = ok,
            score = (if criteriaCount > 0 then js_div totalScore (num criteriaCount) else Fin 0) \<rparr>)"
    unfolding evaluateApproach_def Let_def eval_min_phase eval_max_phase
    by (simp add: spec_contributions_def reduce_sum_def)
  then show ?thesis
    by (simp add: spec_satisfies_def spec_match_score_def Let_def)
qed


lemma matches_iff: "matches (evaluateApproach sg config) = spec_satisfies sg config"
  by (simp add: evaluateApproach_spec)

lemma score_eq: "score (evaluateApproach sg config) = spec_match_score sg config"
  by (simp add: evaluateApproach_spec)








lemma reduce_sum_ones: "reduce_sum (map (\<lambda>_. Fin 1) xs) = Fin (real (length xs))"
proof -
  have "map (\<lambda>_. Fin 1) xs = map Fin (map (\<lambda>_. 1) xs)" by simp
  then have "reduce_sum (map (\<lambda>_. Fin 1) xs) = Fin (sum_list (map (\<lambda>_. 1) xs))"
    by (simp only: reduce_sum_fin)
  then show ?thesis by (simp add: sum_list_triv)
qed

lemma satisfied_contributions:
  assumes "spec_satisfies sg config"
  shows "spec_contributions sg config = map (\<lambda>_. Fin 1) (spec_contributions sg config)"
  using assms
  by (auto simp: spec_satisfies_def spec_contributions_def list_all_iff
      min_contribution_def max_contribution_def)

lemma satisfied_score:
  assumes "spec_satisfies sg config"
  shows "spec_match_score sg config = (if spec_contributions sg config = [] then Fin 0 else Fin 1)"
proof (cases "spec_contributions sg config = []")
  case True
  then show ?thesis by (simp add: spec_match_score_def)
next
  case False
  have "reduce_sum (spec_contributions sg config) = Fin (real (length (spec_contributions sg config)))"
    using satisfied_contributions[OF assms] reduce_sum_ones[of "spec_contributions sg config"]
    by simp
  then show ?thesis
    using False by (simp add: spec_match_score_def Let_def num_def)
qed

section \<open>Choosing an approach\<close>

lemma foldl_choose_step:
  "foldl (choose_step sg) (ms, es) reg =
     (ms @ map fst (matching_entries sg reg), es @ map (evaluation_of sg) (matching_entries sg reg))"
proof (induction reg arbitrary: ms es)
  case Nil
  then show ?case by (simp add: matching_entries_def)
next
  case (Cons entry reg)
  obtain nm config where e: "entry = (nm, config)" by (cases entry)
  show ?case
  proof (cases "spec_satisfies sg config")
    case True
    then have "choose_step sg (ms, es) entry = (ms @ [nm], es @ [evaluation_of sg entry])"
      by (simp add: choose_step_def e matches_iff evaluation_of_def Let_def)
    then show ?thesis
      using True Cons.IH[of "ms @ [nm]" "es @ [evaluation_of sg entry]"]
      by (simp add: e matching_entries_def)
  next
    case False
    then have "choose_step sg (ms, es) entry = (ms, es)"
      by (simp add: choose_step_def e matches_iff Let_def)
    then show ?thesis
      using False Cons.IH[of ms es] by (simp add: e matching_entries_def)
  qed
qed

lemma chooseApproach_spec:
  "fst (chooseApproach fft this w) =
     (let sg = extractSignature fft w;
          ms = matching_entries sg (approachConfigs this);
          ranked = array_sort compare_evaluations (map (evaluation_of sg) ms)
      in \<lparr> recommendedApproach = (if ms = [] then ''default'' else ev_name (hd ranked)),
           matchingApproaches = map fst ms,
           signature = sg,
           confidence = (if ms = [] then Fin 0 else Math_min (ev_score (hd ranked)) (Fin 1)) \<rparr>)"
  by (simp add: chooseApproach_def Let_def foldl_choose_step)

lemma set_insert_by: "set (insert_by cmp x ys) = insert x (set ys)"
  by (induction ys) auto

lemma set_foldl_insert_by:
  "set (foldl (\<lambda>acc x. insert_by cmp x acc) acc xs) = set acc \<union> set xs"
  by (induction xs arbitrary: acc) (auto simp: set_insert_by)

lemma set_array_sort: "set (array_sort cmp xs) = set xs"
  by (simp add: array_sort_def set_foldl_insert_by)

lemma hd_array_sort_in: "xs \<noteq> [] \<Longrightarrow> hd (array_sort cmp xs) \<in> set xs"
proof -
  assume "xs \<noteq> []"
  then have "array_sort cmp xs \<noteq> []"
    using set_array_sort[of cmp xs] by (metis set_empty)
  then have "hd (array_sort cmp xs) \<in> set (array_sort cmp xs)" by simp
  then show ?thesis by (simp add: set_array_sort)
qed

lemma no_declared_declared: "no_declared th \<Longrightarrow> declared (Some th) sg = []"
  by (simp add: no_declared_def declared_def declared_of_def checks_def)

lemma declares_no_thresholds_declared:
  assumes "declares_no_thresholds config"
  shows "declared (minThresholds config) sg = []" "declared (maxThresholds config) sg = []"
  using assms
  by (auto simp: declares_no_thresholds_def declared_None no_declared_declared split: option.splits)

lemma no_thresholds_eval:
  assumes "declares_no_thresholds config"
  shows "spec_satisfies sg config" "spec_match_score sg config = Fin 0"
  using declares_no_thresholds_declared[OF assms]
  by (simp_all add: spec_satisfies_def spec_match_score_def spec_contributions_def)

lemma map_get_in: "map_get m k = Some v \<Longrightarrow> (k, v) \<in> set m"
  by (induction m) (auto split: if_splits)











section \<open>Spectral entropy\<close>






















section \<open>Harvesting numeric values\<close>

lemma str_includes_iff_sublist: "str_includes s sub \<longleftrightarrow> sublist sub s"
  by (induction s) (auto simp: sublist_Cons_right)

lemma harvest_step_spec:
  "harvest_step acc q =
     acc @ (if spec_harvested q then [parseFloat (term_value (object q))] else [])"
proof (cases "object q")
  case (Literal lexical d)
  then show ?thesis
    by (cases d) (auto simp: harvest_step_def spec_harvested_def numeric_tag_def isNaN_def Let_def)
qed (simp_all add: harvest_step_def spec_harvested_def)

lemma foldl_harvest_step:
  "foldl harvest_step acc w =
     acc @ map (\<lambda>q. parseFloat (term_value (object q))) (filter spec_harvested w)"
  by (induction w arbitrary: acc) (simp_all add: harvest_step_spec)

lemma spec_harvested_not_NaN: "spec_harvested q \<Longrightarrow> parseFloat (term_value (object q)) \<noteq> NaN"
  by (cases "object q") (simp_all add: spec_harvested_def)

lemmas parse_defs = parseFloat_def parse_unsigned_def is_white_def is_digit_def
  digits_val_def digit_val_def scale10_def exponent_part_def

section \<open>The range of scores\<close>




section \<open>The two extractors, and the registry\<close>

lemma harvest_step_v1_eq: "harvest_step_v1 = harvest_step"
  by (intro ext) (simp add: harvest_step_v1_def harvest_step_def)

lemma calculateMean_v1_eq: "calculateMean_v1 = calculateMean"
  by (intro ext) (simp add: calculateMean_v1_def calculateMean_def)

lemma calculateVariance_v1_eq: "calculateVariance_v1 = calculateVariance"
  by (intro ext) (simp add: calculateVariance_v1_def calculateVariance_def calculateMean_v1_eq)

lemma calculateSkewness_v1_eq: "calculateSkewness_v1 = calculateSkewness"
  by (intro ext)
     (simp add: calculateSkewness_v1_def calculateSkewness_def calculateMean_v1_eq
        calculateVariance_v1_eq)

lemma count_step_fun: "count_step = (\<lambda>predicateCount quad.
                     let pred = term_value (predicate quad) in
                     map_set predicateCount pred
                       ((case map_get predicateCount pred of None \<Rightarrow> 0 | Some c \<Rightarrow> c) + 1))"
  by (intro ext) (simp add: count_step_def)

lemma entropy_step_fun: "entropy_step totalCount = (\<lambda>acc count.
                  let probability = js_div (num count) (num totalCount) in
                  if js_gt probability (Fin 0)
                  then js_sub acc (js_mul probability (Math_log2 probability))
                  else acc)"
  by (intro ext) (simp add: entropy_step_def)

lemma calculateEntropy_v1_eq: "calculateEntropy_v1 = calculateEntropy"
  by (intro ext)
     (simp only: calculateEntropy_v1_def calculateEntropy_def count_step_fun[symmetric] entropy_step_fun[symmetric])

section \<open>The registry keeps its keys distinct\<close>

lemma registry_distinct_new: "distinct (map_keys (approachConfigs (new_HiveScoutBee approaches)))"
proof -
  have "distinct (map fst m) \<Longrightarrow>
      distinct (map fst (foldl (\<lambda>m approach. map_set m (name approach) approach) m approaches))"
    for m :: "(string \<times> ApproachConfig) list"
    by (induction approaches arbitrary: m) (simp_all add: distinct_map_set)
  from this[of "[]"] show ?thesis
    by (simp add: new_HiveScoutBee_def map_keys_def)
qed

lemma registry_distinct_add:
  "distinct (map_keys (approachConfigs this)) \<Longrightarrow>
   distinct (map_keys (approachConfigs (addApproach this approach)))"
  by (simp add: addApproach_def map_keys_def distinct_map_set)

lemma registry_distinct_remove:
  "distinct (map_keys (approachConfigs this)) \<Longrightarrow>
   distinct (map_keys (approachConfigs (snd (removeApproach this approachName))))"
  by (simp add: removeApproach_def map_delete_def map_keys_def distinct_map_filter)

lemma registry_add_get: "getApproachConfig (addApproach this approach) (name approach) = Some approach"
  by (simp add: getApproachConfig_def addApproach_def map_get_map_set)


section \<open>The examples, evaluated\<close>

lemma parseFloat_digit:
  "parseFloat ''0'' = Fin 0" "parseFloat ''1'' = Fin 1" "parseFloat ''4'' = Fin 4"
  "parseFloat ''5'' = Fin 5"
  by (simp_all add: parse_defs)

lemma parseFloat_Infinity: "parseFloat ''Infinity'' = PInf"
  by (simp add: parse_defs)

lemma test_quad_harvested:
  "spec_harvested (test_quad p v) = (parseFloat v \<noteq> NaN)"
  by (simp add: spec_harvested_def test_quad_def numeric_tag_def)

lemma collect_Cons:
  "collect_numeric (q # w) =
     (if spec_harvested q then [parseFloat (term_value (object q))] else []) @ collect_numeric w"
  by (simp add: collect_numeric_def foldl_harvest_step harvest_step_spec)

lemma collect_test_quad:
  "collect_numeric (test_quad p v # w) =
     (if parseFloat v \<noteq> NaN then [parseFloat v] else []) @ collect_numeric w"
  unfolding collect_Cons test_quad_harvested by (simp add: test_quad_def)

lemma collect_Nil: "collect_numeric [] = []"
  by (simp add: collect_numeric_def)




lemma collect_55: "collect_numeric (window_of [''5'', ''5'']) = map Fin [5, 5]"
  by (simp add: window_of_def collect_test_quad collect_Nil parseFloat_digit)

lemma collect_1: "collect_numeric (window_of [''1'']) = map Fin [1]"
  by (simp add: window_of_def collect_test_quad collect_Nil parseFloat_digit)

lemma collect_Infinity: "collect_numeric (window_of [''Infinity'']) = [PInf]"
  by (simp add: window_of_def collect_test_quad collect_Nil parseFloat_Infinity)






lemma registry_AB:
  "approachConfigs (new_HiveScoutBee [rule_A, rule_B]) = [(''A'', rule_A), (''B'', rule_B)]"
  by (simp add: new_HiveScoutBee_def rule_A_def rule_B_def)

lemma declared_simps:
  "declared None sg = []"
  "declared (Some th) sg = declared_of (checks th sg)"
  by (simp_all add: declared_None declared_Some)

lemma specificity_A: "calculateSpecificity (extractSignature fft []) rule_A = Fin (1 / 100)"
  by (simp add: calculateSpecificity_def rule_A_def empty_thresholds_def checks_def spec_max_step_def
      Let_def num_def)

lemma specificity_B: "calculateSpecificity sg rule_B = Fin 0"
  by (simp add: calculateSpecificity_def rule_B_def)

lemma satisfies_A: "spec_satisfies (extractSignature fft []) rule_A"
  by (simp add: spec_satisfies_def rule_A_def declared_simps empty_thresholds_def checks_def
      declared_of_simps tripleCount_field num_def js_le_def)

lemma satisfies_B: "spec_satisfies sg rule_B"
  by (simp add: spec_satisfies_def rule_B_def declared_simps)

lemma eval_A:
  "evaluation_of (extractSignature fft []) (''A'', rule_A) =
     \<lparr> ev_name = ''A'', ev_score = Fin 1, ev_specificity = Fin (1 / 100), ev_priority = Fin 0 \<rparr>"
  by (simp add: evaluation_of_def specificity_A score_eq satisfied_score[OF satisfies_A])
     (simp add: rule_A_def priority_or_zero_def spec_contributions_def declared_simps
        empty_thresholds_def checks_def declared_of_simps)

lemma eval_B:
  "evaluation_of sg (''B'', rule_B) =
     \<lparr> ev_name = ''B'', ev_score = Fin 0, ev_specificity = Fin 0, ev_priority = Fin 5 \<rparr>"
  by (simp add: evaluation_of_def specificity_B score_eq satisfied_score[OF satisfies_B])
     (simp add: rule_B_def priority_or_zero_def spec_contributions_def declared_simps)

lemma entropy_field: "entropy (extractSignature fft w) = Fin (spec_entropy w)"
  by (simp add: extractSignature_def Let_def calculateEntropy_fin)

lemma variance_55: "variance (extractSignature fft (window_of [''5'', ''5''])) = Fin 0"
  using variance_field[OF collect_55, of fft]
  by (simp add: spec_sample_variance_def spec_mean_def)

lemma entropy_one_predicate:
  "vs \<noteq> [] \<Longrightarrow> entropy (extractSignature fft (window_of vs)) = Fin 0"
proof -
  assume ne: "vs \<noteq> []"
  have p: "predicates_of (window_of vs) = replicate (length vs) ''http://example.org/p1''"
    by (induction vs) (simp_all add: predicates_of_def window_of_def test_quad_def)
  have s: "set (predicates_of (window_of vs)) = {''http://example.org/p1''}"
    using ne by (simp add: p)
  have c: "count_list (replicate n x) x = n" for n and x :: string
    by (induction n) simp_all
  have "spec_probability (window_of vs) ''http://example.org/p1'' = 1"
    using ne by (simp add: spec_probability_def p c) (simp add: window_of_def)
  then show ?thesis
    by (simp add: entropy_field spec_entropy_def s)
qed

lemma sig_55:
  "variance (extractSignature fft (window_of [''5'', ''5''])) = Fin 0"
  "entropy (extractSignature fft (window_of [''5'', ''5''])) = Fin 0"
  by (simp_all add: variance_55 entropy_one_predicate)

lemmas rule_eval_defs = declared_simps empty_thresholds_def checks_def declared_of_simps







lemma choose_AB:
  "fst (chooseApproach dft (new_HiveScoutBee [rule_A, rule_B]) []) =
     \<lparr> recommendedApproach = ''B'', matchingApproaches = [''A'', ''B''],
       signature = extractSignature dft [], confidence = Fin 0 \<rparr>"
proof -
  have ms: "matching_entries (extractSignature dft []) [(''A'', rule_A), (''B'', rule_B)]
      = [(''A'', rule_A), (''B'', rule_B)]"
    by (simp add: matching_entries_def satisfies_A satisfies_B)
  have rk: "array_sort compare_evaluations
      [evaluation_of (extractSignature dft []) (''A'', rule_A),
       evaluation_of (extractSignature dft []) (''B'', rule_B)]
      = [evaluation_of (extractSignature dft []) (''B'', rule_B),
         evaluation_of (extractSignature dft []) (''A'', rule_A)]"
    unfolding eval_A eval_B
    by (simp add: array_sort_def compare_evaluations_def js_sub_def js_gt_def)
  show ?thesis
    by (simp add: chooseApproach_spec Let_def registry_AB ms rk)
       (simp add: eval_B Math_min_def)
qed




lemma range_perfect:
  "nonneg_thresholds_finite_fields (extractSignature fft (window_of [''5'', ''5''])) perfect_match"
  by (simp add: nonneg_thresholds_finite_fields_def perfect_match_def rule_eval_defs sig_55
      js_ge_def js_le_def)






lemma score_perfect:
  "score (evaluateApproach (extractSignature fft (window_of [''5'', ''5''])) perfect_match) = Fin 1"
  by (simp add: score_eq spec_match_score_def spec_contributions_def perfect_match_def
      rule_eval_defs sig_55 min_contribution_def max_contribution_def js_ge_def js_le_def
      reduce_sum_def num_def)

lemma variance_1: "variance (extractSignature fft (window_of [''1''])) = Fin 0"
  using variance_field[OF collect_1, of fft] by (simp add: spec_sample_variance_def)

lemma not_satisfies_impossible:
  "\<not> spec_satisfies (extractSignature fft (window_of [''1''])) impossible_approach"
  by (simp add: spec_satisfies_def impossible_approach_def rule_eval_defs variance_1
      js_ge_def js_le_def)

lemma registry_impossible:
  "approachConfigs (new_HiveScoutBee [impossible_approach])
     = [(''impossible-approach'', impossible_approach)]"
  by (simp add: new_HiveScoutBee_def impossible_approach_def)

section \<open>The claims\<close>

subsection \<open>C1: the spectral entropy\<close>



subsection \<open>C2: the skewness\<close>




subsection \<open>C3: the recommended rule\<close>




subsection \<open>C4: the range of the match score\<close>




subsection \<open>C5: harvesting\<close>

text \<open>
  Claim C5, as amended. For every window, a number is harvested from a triple exactly when
  its object is a literal whose datatype tag is absent or contains one of "integer",
  "decimal", "double", "float", "string", and \<open>parseFloat\<close> of its text is not \<open>NaN\<close>; the
  harvested number is that value, in the window's order. No harvested value is \<open>NaN\<close>; the
  empty string and the text "NaN" give \<open>NaN\<close> and are dropped, as is every non-literal
  object. The claim as stated asks for a finite number: \<open>Infinity\<close> is harvested.
\<close>

theorem harvest_rule:
  "collect_numeric w = map (\<lambda>q. parseFloat (term_value (object q))) (filter spec_harvested w) \<and>
   NaN \<notin> set (collect_numeric w) \<and>
   parseFloat [] = NaN \<and> parseFloat ''NaN'' = NaN"
proof (intro conjI)
  show c: "collect_numeric w = map (\<lambda>q. parseFloat (term_value (object q))) (filter spec_harvested w)"
    by (simp add: collect_numeric_def foldl_harvest_step)
  show "NaN \<notin> set (collect_numeric w)"
    unfolding c using spec_harvested_not_NaN by fastforce
  show "parseFloat [] = NaN" by (simp add: parse_defs)
  show "parseFloat ''NaN'' = NaN" by (simp add: parse_defs)
qed

text \<open>
  The test "should handle edge cases gracefully": nothing is harvested from the texts
  \<open>not_a_number\<close>, \<open>NaN\<close> and the empty string; the fourth literal, 5, is.
\<close>

theorem harvest_rule_witness:
  "parseFloat ''not_a_number'' = NaN \<and>
   collect_numeric (window_of [''not_a_number'', ''NaN'', [], ''5'']) = [Fin 5]"
  using harvest_rule[of "window_of [''not_a_number'', ''NaN'', [], ''5'']"]
  by (simp add: window_of_def test_quad_harvested parseFloat_digit)
     (simp add: test_quad_def parse_defs)

text \<open>
  A literal with the text "Infinity" is read as \<open>Infinity\<close>, which is not \<open>NaN\<close>, and is
  harvested.
\<close>

theorem harvest_finite_counterexample:
  "collect_numeric (window_of [''Infinity'']) = [PInf] \<and>
   \<not> claimed_harvested (test_quad ''http://example.org/p1'' ''Infinity'') \<and>
   collect_numeric (window_of [''Infinity'']) \<noteq>
     map (\<lambda>q. parseFloat (term_value (object q)))
       (filter claimed_harvested (window_of [''Infinity'']))"
  by (simp add: collect_Infinity)
     (simp add: window_of_def claimed_harvested_def test_quad_def parseFloat_Infinity)

subsection \<open>C6: the predicate entropy\<close>

text \<open>
  Claim C6. For every window, the \<open>entropy\<close> field is the base-2 Shannon entropy of the
  predicate frequencies over all triples (the probability of a predicate is its count
  divided by the number of triples), a finite number and never \<open>NaN\<close>; for the empty window
  it is 0, and the map of counts is then empty, so that the loop that divides by the number
  of triples has no iteration.
\<close>

theorem entropy_is_predicate_entropy:
  "entropy (extractSignature fft w) = Fin (spec_entropy w) \<and>
   entropy (extractSignature fft w) \<noteq> NaN \<and>
   entropy (extractSignature fft []) = Fin 0 \<and>
   map_values (foldl count_step [] []) = ([] :: nat list)"
  by (simp add: extractSignature_def Let_def calculateEntropy_fin spec_entropy_def
      predicates_of_def map_values_def)

text \<open>
  The test "should calculate entropy based on predicate distribution": two predicates,
  two triples each, entropy 1.
\<close>

theorem entropy_witness:
  "entropy (extractSignature dft
     [test_quad ''p1'' ''a'', test_quad ''p1'' ''b'', test_quad ''p2'' ''c'', test_quad ''p2'' ''d''])
   = Fin 1"
proof -
  have "spec_entropy
     [test_quad ''p1'' ''a'', test_quad ''p1'' ''b'', test_quad ''p2'' ''c'', test_quad ''p2'' ''d'']
     = 1"
    using log2_of_power_eq[of 4 2]
    by (simp add: spec_entropy_def spec_probability_def predicates_of_def test_quad_def log_divide)
  then show ?thesis
    using entropy_is_predicate_entropy[of dft
      "[test_quad ''p1'' ''a'', test_quad ''p1'' ''b'', test_quad ''p2'' ''c'', test_quad ''p2'' ''d'']"]
    by simp
qed

subsection \<open>C7: no rule matches\<close>

text \<open>
  Claim C7. For every registry and window, if no registered rule has all its declared
  thresholds satisfied by the signature, \<open>chooseApproach\<close> returns the recommendation with
  \<open>recommendedApproach = "default"\<close>, no matching approaches and confidence 0. It is a
  value of the total function \<open>chooseApproach\<close>: nothing is thrown.
\<close>

theorem no_match_default:
  assumes "list_all (\<lambda>entry. \<not> spec_satisfies (extractSignature fft w) (snd entry)) (approachConfigs this)"
  shows "fst (chooseApproach fft this w) =
     \<lparr> recommendedApproach = ''default'', matchingApproaches = [],
       signature = extractSignature fft w, confidence = Fin 0 \<rparr>"
proof -
  have "matching_entries (extractSignature fft w) (approachConfigs this) = []"
    using assms by (auto simp: matching_entries_def list_all_iff filter_empty_conv)
  then show ?thesis
    by (simp add: chooseApproach_spec Let_def)
qed

text \<open>
  The test "should return default approach when no approaches match".
\<close>

theorem no_match_default_witness:
  "list_all (\<lambda>entry. \<not> spec_satisfies (extractSignature dft (window_of [''1''])) (snd entry))
     (approachConfigs (new_HiveScoutBee [impossible_approach])) \<and>
   fst (chooseApproach dft (new_HiveScoutBee [impossible_approach]) (window_of [''1''])) =
     \<lparr> recommendedApproach = ''default'', matchingApproaches = [],
       signature = extractSignature dft (window_of [''1'']), confidence = Fin 0 \<rparr>"
proof -
  have h: "list_all (\<lambda>entry. \<not> spec_satisfies (extractSignature dft (window_of [''1''])) (snd entry))
     (approachConfigs (new_HiveScoutBee [impossible_approach]))"
    by (simp add: registry_impossible not_satisfies_impossible)
  show ?thesis
    using h no_match_default[OF h] by simp
qed

subsection \<open>C8: a rule without thresholds\<close>

text \<open>
  Claim C8. For every signature, a rule that declares no min-threshold and no max-threshold
  matches, with match score 0; registered under a name, that name is among the matching
  approaches of \<open>chooseApproach\<close> on every window; and when it is the recommended approach,
  the confidence is 0. The registry is a \<open>Map\<close>: its keys are distinct.
\<close>

theorem no_thresholds_rule:
  assumes "declares_no_thresholds config"
  shows "matches (evaluateApproach sg config) \<and>
         score (evaluateApproach sg config) = Fin 0 \<and>
         (map_get (approachConfigs this) nm = Some config \<longrightarrow>
            nm \<in> set (matchingApproaches (fst (chooseApproach fft this w)))) \<and>
         (distinct (map_keys (approachConfigs this)) \<and>
          map_get (approachConfigs this) nm = Some config \<and>
          recommendedApproach (fst (chooseApproach fft this w)) = nm \<longrightarrow>
            confidence (fst (chooseApproach fft this w)) = Fin 0)"
proof (intro conjI impI)
  show "matches (evaluateApproach sg config)"
    by (simp add: matches_iff no_thresholds_eval[OF assms])
  show "score (evaluateApproach sg config) = Fin 0"
    by (simp add: score_eq no_thresholds_eval[OF assms])
next
  assume "map_get (approachConfigs this) nm = Some config"
  then have "(nm, config) \<in> set (approachConfigs this)" by (rule map_get_in)
  then have "(nm, config) \<in> set (matching_entries (extractSignature fft w) (approachConfigs this))"
    by (simp add: matching_entries_def no_thresholds_eval[OF assms])
  then show "nm \<in> set (matchingApproaches (fst (chooseApproach fft this w)))"
    by (force simp: chooseApproach_spec Let_def)
next
  define sg' where "sg' = extractSignature fft w"
  define ms where "ms = matching_entries sg' (approachConfigs this)"
  define ranked where "ranked = array_sort compare_evaluations (map (evaluation_of sg') ms)"
  assume a: "distinct (map_keys (approachConfigs this)) \<and>
          map_get (approachConfigs this) nm = Some config \<and>
          recommendedApproach (fst (chooseApproach fft this w)) = nm"
  then have "(nm, config) \<in> set (approachConfigs this)" by (simp add: map_get_in)
  then have "(nm, config) \<in> set ms"
    by (simp add: ms_def matching_entries_def no_thresholds_eval[OF assms])
  then have ne: "ms \<noteq> []" by auto
  then have "hd ranked \<in> set (map (evaluation_of sg') ms)"
    unfolding ranked_def by (intro hd_array_sort_in) simp
  then obtain entry where entry: "entry \<in> set ms" "hd ranked = evaluation_of sg' entry"
    by auto
  have "ev_name (hd ranked) = nm"
    using a ne by (simp add: chooseApproach_spec Let_def sg'_def ms_def ranked_def)
  then have "fst entry = nm"
    by (simp add: entry evaluation_of_def)
  moreover have "entry \<in> set (approachConfigs this)"
    using entry(1) by (simp add: ms_def matching_entries_def)
  ultimately have "map_get (approachConfigs this) nm = Some (snd entry)"
    using a map_get_distinct[of "approachConfigs this" nm "snd entry"]
    by (cases entry) (simp add: map_keys_def)
  then have "snd entry = config" using a by simp
  then have "ev_score (hd ranked) = Fin 0"
    by (simp add: entry evaluation_of_def score_eq no_thresholds_eval[OF assms])
  then show "confidence (fst (chooseApproach fft this w)) = Fin 0"
    using ne by (simp add: chooseApproach_spec Let_def sg'_def ms_def ranked_def Math_min_def)
qed

theorem no_thresholds_rule_witness:
  "declares_no_thresholds rule_B \<and>
   matches (evaluateApproach (extractSignature dft []) rule_B) \<and>
   score (evaluateApproach (extractSignature dft []) rule_B) = Fin 0 \<and>
   map_get (approachConfigs (new_HiveScoutBee [rule_A, rule_B])) ''B'' = Some rule_B \<and>
   distinct (map_keys (approachConfigs (new_HiveScoutBee [rule_A, rule_B]))) \<and>
   ''B'' \<in> set (matchingApproaches (fst (chooseApproach dft (new_HiveScoutBee [rule_A, rule_B]) []))) \<and>
   recommendedApproach (fst (chooseApproach dft (new_HiveScoutBee [rule_A, rule_B]) [])) = ''B'' \<and>
   confidence (fst (chooseApproach dft (new_HiveScoutBee [rule_A, rule_B]) [])) = Fin 0"
proof -
  have h: "declares_no_thresholds rule_B"
    by (simp add: declares_no_thresholds_def rule_B_def)
  show ?thesis
    using h no_thresholds_rule[OF h, of "extractSignature dft []" "new_HiveScoutBee [rule_A, rule_B]"
        "''B''" dft "[]"]
    by (simp add: registry_AB map_keys_def choose_AB)
qed

subsection \<open>C9: \<open>chooseApproach\<close> leaves the registry unchanged\<close>


subsection \<open>C10: the two extractors agree\<close>

text \<open>
  Claim C10. For every window, the earlier extractor (without \<open>fftEntropy\<close>) and the later
  one compute the same \<open>tripleCount\<close>, \<open>variance\<close>, \<open>skewness\<close> and \<open>entropy\<close>.
\<close>

theorem extractSignature_versions_agree:
  "tripleCount_v1 (extractSignature_v1 w) = tripleCount (extractSignature fft w) \<and>
   variance_v1 (extractSignature_v1 w) = variance (extractSignature fft w) \<and>
   skewness_v1 (extractSignature_v1 w) = skewness (extractSignature fft w) \<and>
   entropy_v1 (extractSignature_v1 w) = entropy (extractSignature fft w)"
  by (simp add: extractSignature_v1_def extractSignature_def collect_numeric_def Let_def
      harvest_step_v1_eq calculateVariance_v1_eq calculateSkewness_v1_eq calculateEntropy_v1_eq)

end
